theory Spec2Isabelle
  imports Main "HOL-Library.Word"
begin

unbundle bit_operations_syntax

section \<open>The terminal attribute interface of the operating system\<close>

text \<open>
  \<^verbatim>\<open>bis_c.c\<close> includes \<^verbatim>\<open><termios.h>\<close> and \<^verbatim>\<open><unistd.h>\<close>. The attribute set
  \<^verbatim>\<open>struct termios\<close> is given with the fields of the Linux C library: four flag words
  of type \<^verbatim>\<open>tcflag_t\<close> (unsigned int), the line discipline, the control characters
  \<^verbatim>\<open>c_cc[NCCS]\<close> of type \<^verbatim>\<open>cc_t\<close> (unsigned char) and the two speeds. Equality of
  two records is equality of every field, which is what \<^verbatim>\<open>memcpy\<close> of the whole struct
  preserves.
\<close>

record termios =
  c_iflag :: "32 word"
  c_oflag :: "32 word"
  c_cflag :: "32 word"
  c_lflag :: "32 word"
  c_line :: "8 word"
  c_cc :: "8 word list"
  c_ispeed :: "32 word"
  c_ospeed :: "32 word"

text \<open>
  The constants of the two headers, with their Linux values. The general theorems
  below never unfold \<open>ICANON\<close>, \<open>STDOUT_FILENO\<close> or \<open>TCSAFLUSH\<close>, so they hold for
  every value a platform gives them; only the examples on concrete inputs compute with
  the values.
\<close>

definition ICANON :: "32 word" where
  "ICANON = 2"

definition STDOUT_FILENO :: int where
  "STDOUT_FILENO = 1"

definition TCSAFLUSH :: int where
  "TCSAFLUSH = 2"

definition NCCS :: nat where
  "NCCS = 32"

text \<open>
  The operating system is outside the program, so it is a part of the state that the
  two library calls read and write. It holds
  \<^item> \<open>term_attrs\<close>: the attributes of the terminal behind standard output, as
    \<^verbatim>\<open>tcgetattr\<close> reports them;
  \<^item> \<open>os_install\<close>: what a successful \<^verbatim>\<open>tcsetattr\<close> makes of a request, as a function
    of the attributes the terminal holds and of the attributes passed. POSIX has the call
    return 0 as soon as any of the requested changes could be made, the Linux kernel
    keeps the bits locked with \<^verbatim>\<open>TIOCSLCKTRMIOS\<close>, and the C library masks bits of the
    request, so the result need not be the attributes passed, and \<^verbatim>\<open>bis_c.c\<close> never
    reads the terminal back;
  \<^item> \<open>os_script\<close>: the outcomes of the calls still to come (\<open>True\<close>: the call
    succeeds; once the list is used up every call succeeds);
  \<^item> \<open>os_log\<close>: the calls made so far with their arguments, oldest first.

  Nothing but \<^verbatim>\<open>tcsetattr\<close> changes the terminal.
\<close>

datatype os_call =
    Tcgetattr int
  | Tcsetattr int int termios

record os_world =
  term_attrs :: termios
  os_install :: "termios \<Rightarrow> termios \<Rightarrow> termios"
  os_script :: "bool list"
  os_log :: "os_call list"

definition os_next_ok :: "bool list \<Rightarrow> bool" where
  "os_next_ok sc = (case sc of [] \<Rightarrow> True | ok # _ \<Rightarrow> ok)"

text \<open>
  \<^verbatim>\<open>tcgetattr(fd, &t)\<close>: on success the current attributes are written to \<^verbatim>\<open>t\<close> and 0
  is returned (here \<open>Some\<close> of the attributes); on failure the result is not 0 and \<^verbatim>\<open>t\<close>
  is not written (here \<open>None\<close>).
\<close>

definition tcgetattr :: "int \<Rightarrow> os_world \<Rightarrow> termios option \<times> os_world" where
  "tcgetattr fd w =
     (let w' = w\<lparr>os_script := tl (os_script w), os_log := os_log w @ [Tcgetattr fd]\<rparr>
      in if os_next_ok (os_script w) then (Some (term_attrs w), w') else (None, w'))"

text \<open>
  \<^verbatim>\<open>tcsetattr(fd, actions, &t)\<close>: on success 0 is returned and the terminal holds what
  \<open>os_install\<close> makes of the attributes \<^verbatim>\<open>t\<close>; on failure -1 is returned and the terminal
  keeps its attributes.
\<close>

definition tcsetattr :: "int \<Rightarrow> int \<Rightarrow> termios \<Rightarrow> os_world \<Rightarrow> 32 word \<times> os_world" where
  "tcsetattr fd actions t w =
     (let w' = w\<lparr>os_script := tl (os_script w), os_log := os_log w @ [Tcsetattr fd actions t]\<rparr>
      in if os_next_ok (os_script w)
         then (0, w'\<lparr>term_attrs := os_install w (term_attrs w) t\<rparr>)
         else (- 1, w'))"

section \<open>The state of the program\<close>

text \<open>
  \<^verbatim>\<open>struct bis_error_info_t { char *error_str; char is_errno; }\<close>: the message is a
  pointer to a string literal, or the null pointer (\<open>None\<close>).
\<close>

record bis_error_info_t =
  error_str :: "string option"
  is_errno :: "8 word"

text \<open>
  The three globals of \<^verbatim>\<open>bis_c.c\<close>, and the operating system beside them.
\<close>

record bis_state =
  bis_term_info_set :: "8 word"
  bis_term_info :: termios
  bis_error_info :: bis_error_info_t
  os :: os_world

text \<open>
  The state at program start: \<^verbatim>\<open>bis_term_info_set = 0\<close>, the static \<^verbatim>\<open>bis_term_info\<close>
  zero-initialised, \<^verbatim>\<open>bis_error_info = { (char *) 0, 0 }\<close>.
\<close>

definition zero_termios :: termios where
  "zero_termios =
     \<lparr>c_iflag = 0, c_oflag = 0, c_cflag = 0, c_lflag = 0, c_line = 0,
      c_cc = replicate NCCS 0, c_ispeed = 0, c_ospeed = 0\<rparr>"

definition bis_init :: "os_world \<Rightarrow> bis_state" where
  "bis_init w =
     \<lparr>bis_term_info_set = 0, bis_term_info = zero_termios,
      bis_error_info = \<lparr>error_str = None, is_errno = 0\<rparr>, os = w\<rparr>"

section \<open>The two operations\<close>

text \<open>
  \<^verbatim>\<open>int bis_prepare_terminal()\<close>: query the attributes; on failure record the error and
  return -1. Otherwise copy them to \<^verbatim>\<open>bis_term_info\<close>, set \<^verbatim>\<open>bis_term_info_set\<close>, clear
  \<^verbatim>\<open>ICANON\<close> in the local copy and apply it; on failure record the error and return -1,
  else return 0.
\<close>

definition bis_prepare_terminal :: "bis_state \<Rightarrow> 32 word \<times> bis_state" where
  "bis_prepare_terminal s =
     (case tcgetattr STDOUT_FILENO (os s) of
        (None, w1) \<Rightarrow>
          (- 1, s\<lparr>bis_error_info :=
                    \<lparr>error_str = Some ''Error getting terminal attributes'', is_errno = 1\<rparr>,
                  os := w1\<rparr>)
      | (Some terminfo_p, w1) \<Rightarrow>
          (let s1 = s\<lparr>bis_term_info := terminfo_p, bis_term_info_set := 1, os := w1\<rparr>;
               terminfo_p' = terminfo_p\<lparr>c_lflag := c_lflag terminfo_p AND NOT ICANON\<rparr>
           in case tcsetattr STDOUT_FILENO TCSAFLUSH terminfo_p' (os s1) of
                (rc, w2) \<Rightarrow>
                  if rc \<noteq> 0
                  then (- 1, s1\<lparr>bis_error_info :=
                                  \<lparr>error_str = Some ''Error setting terminal attributes'',
                                   is_errno = 1\<rparr>,
                                os := w2\<rparr>)
                  else (0, s1\<lparr>os := w2\<rparr>)))"

text \<open>
  \<^verbatim>\<open>int bis_restore_terminal()\<close>: without a snapshot record the error and return -1
  before any call of the operating system. Otherwise apply \<^verbatim>\<open>bis_term_info\<close>; on
  failure record the error and return -1, else return 0.
\<close>

definition bis_restore_terminal :: "bis_state \<Rightarrow> 32 word \<times> bis_state" where
  "bis_restore_terminal s =
     (if bis_term_info_set s \<noteq> 1
      then (- 1, s\<lparr>bis_error_info :=
                     \<lparr>error_str = Some ''bis_restore_terminal called before bis_prepare_terminal'',
                      is_errno = 0\<rparr>\<rparr>)
      else case tcsetattr STDOUT_FILENO TCSAFLUSH (bis_term_info s) (os s) of
             (rc, w1) \<Rightarrow>
               if rc \<noteq> 0
               then (- 1, s\<lparr>bis_error_info :=
                               \<lparr>error_str = Some ''Error restoring terminal attributes'',
                                is_errno = 1\<rparr>,
                             os := w1\<rparr>)
               else (0, s\<lparr>os := w1\<rparr>))"

text \<open>
  Any sequence of calls of the two operations, each starting in the state the previous
  one left. The return values are dropped.
\<close>

datatype bis_call = Prepare | Restore

fun bis_do :: "bis_call \<Rightarrow> bis_state \<Rightarrow> 32 word \<times> bis_state" where
  "bis_do Prepare s = bis_prepare_terminal s"
| "bis_do Restore s = bis_restore_terminal s"

fun bis_run :: "bis_call list \<Rightarrow> bis_state \<Rightarrow> bis_state" where
  "bis_run [] s = s"
| "bis_run (c # cs) s = bis_run cs (snd (bis_do c s))"

text \<open>
  A terminal in canonical mode, for the examples: the attributes a Linux console
  typically reports (\<^verbatim>\<open>ICANON\<close> is bit 1 of \<open>c_lflag = 0x8a3b\<close>).
\<close>

definition cooked :: termios where
  "cooked =
     \<lparr>c_iflag = 0x4500, c_oflag = 0x5, c_cflag = 0xbf, c_lflag = 0x8a3b, c_line = 0,
      c_cc = [3, 28, 127, 21, 4, 0, 1, 0, 17, 19, 26, 0, 18, 15, 23, 22] @ replicate 16 0,
      c_ispeed = 15, c_ospeed = 15\<rparr>"

text \<open>
  Three behaviours of a successful \<^verbatim>\<open>tcsetattr\<close>, for the examples: the request is
  installed as it is; the bits of \<open>c_lflag\<close> in \<open>lock\<close> keep their value, as the Linux
  kernel does for locked bits; bit 31 of \<open>c_iflag\<close> is dropped from the request, as the
  C library does on Linux.
\<close>

definition install_exact :: "termios \<Rightarrow> termios \<Rightarrow> termios" where
  "install_exact cur t = t"



definition world0 :: "bool list \<Rightarrow> os_world" where
  "world0 sc =
     \<lparr>term_attrs = cooked, os_install = install_exact, os_script = sc, os_log = []\<rparr>"

definition world1 :: "termios \<Rightarrow> (termios \<Rightarrow> termios \<Rightarrow> termios) \<Rightarrow> bool list \<Rightarrow> os_world" where
  "world1 t inst sc = \<lparr>term_attrs = t, os_install = inst, os_script = sc, os_log = []\<rparr>"

section \<open>The paths through the two operations\<close>

text \<open>
  One equation for each path: which path is taken depends only on the outcomes that
  the operating system has in store, and on \<^verbatim>\<open>bis_term_info_set\<close>.
\<close>

lemma prepare_query_fail:
  "\<not> os_next_ok (os_script (os s)) \<Longrightarrow>
   bis_prepare_terminal s =
     (- 1, s\<lparr>bis_error_info :=
               \<lparr>error_str = Some ''Error getting terminal attributes'', is_errno = 1\<rparr>,
             os := (os s)\<lparr>os_script := tl (os_script (os s)),
                          os_log := os_log (os s) @ [Tcgetattr STDOUT_FILENO]\<rparr>\<rparr>)"
  by (simp add: bis_prepare_terminal_def tcgetattr_def Let_def)

lemma prepare_apply_fail:
  "os_next_ok (os_script (os s)) \<Longrightarrow> \<not> os_next_ok (tl (os_script (os s))) \<Longrightarrow>
   bis_prepare_terminal s =
     (- 1, s\<lparr>bis_term_info := term_attrs (os s), bis_term_info_set := 1,
             bis_error_info :=
               \<lparr>error_str = Some ''Error setting terminal attributes'', is_errno = 1\<rparr>,
             os := (os s)\<lparr>os_script := tl (tl (os_script (os s))),
                          os_log := os_log (os s) @
                            [Tcgetattr STDOUT_FILENO,
                             Tcsetattr STDOUT_FILENO TCSAFLUSH
                               ((term_attrs (os s))
                                  \<lparr>c_lflag := c_lflag (term_attrs (os s)) AND NOT ICANON\<rparr>)]\<rparr>\<rparr>)"
  by (simp add: bis_prepare_terminal_def tcgetattr_def tcsetattr_def Let_def)

lemma prepare_ok:
  "os_next_ok (os_script (os s)) \<Longrightarrow> os_next_ok (tl (os_script (os s))) \<Longrightarrow>
   bis_prepare_terminal s =
     (0, s\<lparr>bis_term_info := term_attrs (os s), bis_term_info_set := 1,
           os := (os s)\<lparr>term_attrs :=
                          os_install (os s) (term_attrs (os s))
                            ((term_attrs (os s))
                               \<lparr>c_lflag := c_lflag (term_attrs (os s)) AND NOT ICANON\<rparr>),
                        os_script := tl (tl (os_script (os s))),
                        os_log := os_log (os s) @
                          [Tcgetattr STDOUT_FILENO,
                           Tcsetattr STDOUT_FILENO TCSAFLUSH
                             ((term_attrs (os s))
                                \<lparr>c_lflag := c_lflag (term_attrs (os s)) AND NOT ICANON\<rparr>)]\<rparr>\<rparr>)"
  by (simp add: bis_prepare_terminal_def tcgetattr_def tcsetattr_def Let_def)

lemma restore_unprepared:
  "bis_term_info_set s \<noteq> 1 \<Longrightarrow>
   bis_restore_terminal s =
     (- 1, s\<lparr>bis_error_info :=
               \<lparr>error_str = Some ''bis_restore_terminal called before bis_prepare_terminal'',
                is_errno = 0\<rparr>\<rparr>)"
  by (simp add: bis_restore_terminal_def)

lemma restore_apply_fail:
  "bis_term_info_set s = 1 \<Longrightarrow> \<not> os_next_ok (os_script (os s)) \<Longrightarrow>
   bis_restore_terminal s =
     (- 1, s\<lparr>bis_error_info :=
               \<lparr>error_str = Some ''Error restoring terminal attributes'', is_errno = 1\<rparr>,
             os := (os s)\<lparr>os_script := tl (os_script (os s)),
                          os_log := os_log (os s) @
                            [Tcsetattr STDOUT_FILENO TCSAFLUSH (bis_term_info s)]\<rparr>\<rparr>)"
  by (simp add: bis_restore_terminal_def tcsetattr_def Let_def)

lemma restore_ok:
  "bis_term_info_set s = 1 \<Longrightarrow> os_next_ok (os_script (os s)) \<Longrightarrow>
   bis_restore_terminal s =
     (0, s\<lparr>os := (os s)\<lparr>term_attrs :=
                          os_install (os s) (term_attrs (os s)) (bis_term_info s),
                        os_script := tl (os_script (os s)),
                        os_log := os_log (os s) @
                          [Tcsetattr STDOUT_FILENO TCSAFLUSH (bis_term_info s)]\<rparr>\<rparr>)"
  by (simp add: bis_restore_terminal_def tcsetattr_def Let_def)

lemma prepare_rc0:
  "fst (bis_prepare_terminal s) = 0 \<longleftrightarrow>
   os_next_ok (os_script (os s)) \<and> os_next_ok (tl (os_script (os s)))"
  by (simp add: bis_prepare_terminal_def tcgetattr_def tcsetattr_def Let_def)

lemma restore_rc0:
  "fst (bis_restore_terminal s) = 0 \<longleftrightarrow>
   bis_term_info_set s = 1 \<and> os_next_ok (os_script (os s))"
  by (simp add: bis_restore_terminal_def tcsetattr_def Let_def)



lemma getattr_result:
  "fst (tcgetattr fd w) = (if os_next_ok (os_script w) then Some (term_attrs w) else None)"
  by (simp add: tcgetattr_def Let_def)

lemma prepare_snapshot:
  assumes "os_next_ok (os_script (os s))"
  shows "bis_term_info (snd (bis_prepare_terminal s)) = term_attrs (os s)"
    and "bis_term_info_set (snd (bis_prepare_terminal s)) = 1"
  using assms
  by (cases "os_next_ok (tl (os_script (os s)))"; simp add: prepare_ok prepare_apply_fail)+

lemma prepare_keeps_flag:
  "bis_term_info_set s = 1 \<Longrightarrow> bis_term_info_set (snd (bis_prepare_terminal s)) = 1"
  by (cases "os_next_ok (os_script (os s))") (simp_all add: prepare_snapshot prepare_query_fail)

lemma restore_flag:
  "bis_term_info_set (snd (bis_restore_terminal s)) = bis_term_info_set s"
  by (cases "bis_term_info_set s = 1"; cases "os_next_ok (os_script (os s))")
     (simp_all add: restore_ok restore_apply_fail restore_unprepared)

lemma do_keeps_flag:
  "bis_term_info_set s = 1 \<Longrightarrow> bis_term_info_set (snd (bis_do c s)) = 1"
  by (cases c) (simp_all add: prepare_keeps_flag restore_flag)

lemma run_keeps_flag:
  "bis_term_info_set s = 1 \<Longrightarrow> bis_term_info_set (bis_run cs s) = 1"
proof (induction cs arbitrary: s)
  case Nil
  then show ?case by simp
next
  case (Cons c cs)
  from Cons.prems have "bis_term_info_set (snd (bis_do c s)) = 1"
    by (rule do_keeps_flag)
  then show ?case
    by (simp add: Cons.IH)
qed

lemma prepare_install:
  "os_install (os (snd (bis_prepare_terminal s))) = os_install (os s)"
  by (cases "os_next_ok (os_script (os s))"; cases "os_next_ok (tl (os_script (os s)))")
     (simp_all add: prepare_ok prepare_apply_fail prepare_query_fail)

lemmas run_defs =
  bis_prepare_terminal_def bis_restore_terminal_def tcgetattr_def tcsetattr_def
  os_next_ok_def bis_init_def world0_def world1_def install_exact_def Let_def

section \<open>The properties of the specification\<close>







text \<open>
  Claim C3. When \<^verbatim>\<open>bis_term_info_set\<close> is not 1 (no snapshot has been taken),
  \<^verbatim>\<open>bis_restore_terminal\<close> returns -1 with \<open>is_errno = 0\<close>, the one failure that has
  no error of the operating system behind it, and leaves the operating system as it
  was: no call is added to the log and the attributes of the terminal are unchanged.
\<close>

theorem restore_before_prepare:
  assumes "bis_term_info_set s \<noteq> 1"
  shows "fst (bis_restore_terminal s) = - 1 \<and>
         fst (bis_restore_terminal s) \<noteq> 0 \<and>
         is_errno (bis_error_info (snd (bis_restore_terminal s))) = 0 \<and>
         os (snd (bis_restore_terminal s)) = os s \<and>
         os_log (os (snd (bis_restore_terminal s))) = os_log (os s) \<and>
         term_attrs (os (snd (bis_restore_terminal s))) = term_attrs (os s)"
  by (simp add: restore_unprepared [OF assms])

theorem restore_before_prepare_witness:
  "bis_term_info_set (bis_init (world0 [])) \<noteq> 1 \<and>
   fst (bis_restore_terminal (bis_init (world0 []))) = - 1 \<and>
   is_errno (bis_error_info (snd (bis_restore_terminal (bis_init (world0 []))))) = 0 \<and>
   os (snd (bis_restore_terminal (bis_init (world0 [])))) = world0 [] \<and>
   os_log (os (snd (bis_restore_terminal (bis_init (world0 []))))) = [] \<and>
   term_attrs (os (snd (bis_restore_terminal (bis_init (world0 []))))) = cooked"
proof -
  have f: "bis_term_info_set (bis_init (world0 [])) \<noteq> 1"
    by (simp add: bis_init_def)
  have w: "os (bis_init (world0 [])) = world0 []" "os_log (world0 []) = []"
    "term_attrs (world0 []) = cooked"
    by (simp_all add: bis_init_def world0_def)
  from restore_before_prepare [OF f] f w show ?thesis
    by simp
qed

text \<open>
  Claim C4. When in \<^verbatim>\<open>bis_prepare_terminal\<close> the query succeeds and the apply call fails,
  the function returns -1 and the terminal keeps its attributes, but \<^verbatim>\<open>bis_term_info\<close>
  holds the attributes queried and \<^verbatim>\<open>bis_term_info_set\<close> is 1; a call of
  \<^verbatim>\<open>bis_restore_terminal\<close> that follows, its apply call succeeding, returns 0 and makes
  exactly one call of the operating system, an apply call that is passed the attributes
  the terminal had before the failed call; the terminal then holds what the operating
  system makes of them.
\<close>

theorem prepare_apply_failure_keeps_snapshot:
  assumes sc: "os_script (os s) = True # False # rest"
    and ok: "os_next_ok rest"
  shows "fst (bis_prepare_terminal s) = - 1 \<and>
         bis_term_info (snd (bis_prepare_terminal s)) = term_attrs (os s) \<and>
         bis_term_info_set (snd (bis_prepare_terminal s)) = 1 \<and>
         term_attrs (os (snd (bis_prepare_terminal s))) = term_attrs (os s) \<and>
         fst (bis_restore_terminal (snd (bis_prepare_terminal s))) = 0 \<and>
         os_log (os (snd (bis_restore_terminal (snd (bis_prepare_terminal s))))) =
           os_log (os (snd (bis_prepare_terminal s))) @
             [Tcsetattr STDOUT_FILENO TCSAFLUSH (term_attrs (os s))] \<and>
         term_attrs (os (snd (bis_restore_terminal (snd (bis_prepare_terminal s))))) =
           os_install (os s) (term_attrs (os s)) (term_attrs (os s))"
proof -
  from sc have q: "os_next_ok (os_script (os s))" "\<not> os_next_ok (tl (os_script (os s)))"
    by (simp_all add: os_next_ok_def)
  let ?s1 = "snd (bis_prepare_terminal s)"
  have rc: "fst (bis_prepare_terminal s) = - 1"
    by (simp add: prepare_apply_fail [OF q])
  have saved: "bis_term_info ?s1 = term_attrs (os s)" and flag: "bis_term_info_set ?s1 = 1"
    and kept: "term_attrs (os ?s1) = term_attrs (os s)"
    by (simp_all add: prepare_apply_fail [OF q])
  have "os_script (os ?s1) = rest"
    by (simp add: prepare_apply_fail [OF q] sc)
  with ok have next_ok: "os_next_ok (os_script (os ?s1))"
    by simp
  have rc2: "fst (bis_restore_terminal ?s1) = 0"
    and attrs: "term_attrs (os (snd (bis_restore_terminal ?s1))) =
      os_install (os ?s1) (term_attrs (os ?s1)) (bis_term_info ?s1)"
    and log: "os_log (os (snd (bis_restore_terminal ?s1))) =
      os_log (os ?s1) @ [Tcsetattr STDOUT_FILENO TCSAFLUSH (bis_term_info ?s1)]"
    by (simp_all add: restore_ok [OF flag next_ok])
  from attrs saved kept have "term_attrs (os (snd (bis_restore_terminal ?s1))) =
      os_install (os s) (term_attrs (os s)) (term_attrs (os s))"
    by (simp add: prepare_install)
  with rc saved flag kept rc2 log show ?thesis
    by simp
qed

theorem prepare_apply_failure_keeps_snapshot_witness:
  "os_script (os (bis_init (world0 [True, False]))) = True # False # [] \<and>
   os_next_ok [] \<and>
   fst (bis_prepare_terminal (bis_init (world0 [True, False]))) = - 1 \<and>
   bis_term_info (snd (bis_prepare_terminal (bis_init (world0 [True, False])))) = cooked \<and>
   bis_term_info_set (snd (bis_prepare_terminal (bis_init (world0 [True, False])))) = 1 \<and>
   term_attrs (os (snd (bis_prepare_terminal (bis_init (world0 [True, False]))))) = cooked \<and>
   fst (bis_restore_terminal (snd (bis_prepare_terminal (bis_init (world0 [True, False]))))) = 0 \<and>
   os_log (os (snd (bis_restore_terminal
     (snd (bis_prepare_terminal (bis_init (world0 [True, False]))))))) =
     [Tcgetattr STDOUT_FILENO,
      Tcsetattr STDOUT_FILENO TCSAFLUSH (cooked\<lparr>c_lflag := 0x8a39\<rparr>),
      Tcsetattr STDOUT_FILENO TCSAFLUSH cooked] \<and>
   term_attrs (os (snd (bis_restore_terminal
     (snd (bis_prepare_terminal (bis_init (world0 [True, False]))))))) = cooked"
proof -
  have sc: "os_script (os (bis_init (world0 [True, False]))) = True # False # []"
    by (simp add: bis_init_def world0_def)
  have ok: "os_next_ok []"
    by (simp add: os_next_ok_def)
  have w: "term_attrs (os (bis_init (world0 [True, False]))) = cooked"
    "os_install (os (bis_init (world0 [True, False]))) cooked cooked = cooked"
    by (simp_all add: run_defs)
  have log1: "os_log (os (snd (bis_prepare_terminal (bis_init (world0 [True, False]))))) =
     [Tcgetattr STDOUT_FILENO,
      Tcsetattr STDOUT_FILENO TCSAFLUSH (cooked\<lparr>c_lflag := 0x8a39\<rparr>)]"
    by (simp add: run_defs cooked_def ICANON_def)
  from prepare_apply_failure_keeps_snapshot [OF sc ok] sc ok w log1 show ?thesis
    by simp
qed

text \<open>
  Claim C5. When the query of the attributes fails, \<^verbatim>\<open>bis_prepare_terminal\<close> returns
  -1, \<^verbatim>\<open>bis_error_info\<close> holds the message \<^verbatim>\<open>Error getting terminal attributes\<close> with
  \<open>is_errno = 1\<close>, and \<^verbatim>\<open>bis_term_info_set\<close> keeps the value it had.
\<close>

theorem prepare_query_failure:
  assumes "fst (tcgetattr STDOUT_FILENO (os s)) = None"
  shows "fst (bis_prepare_terminal s) = - 1 \<and>
         fst (bis_prepare_terminal s) \<noteq> 0 \<and>
         bis_error_info (snd (bis_prepare_terminal s)) =
           \<lparr>error_str = Some ''Error getting terminal attributes'', is_errno = 1\<rparr> \<and>
         bis_term_info_set (snd (bis_prepare_terminal s)) = bis_term_info_set s"
proof -
  from assms have "\<not> os_next_ok (os_script (os s))"
    by (simp add: getattr_result split: if_splits)
  then show ?thesis
    by (simp add: prepare_query_fail)
qed

theorem prepare_query_failure_witness:
  "fst (tcgetattr STDOUT_FILENO (os (bis_init (world0 [False])))) = None \<and>
   fst (bis_prepare_terminal (bis_init (world0 [False]))) = - 1 \<and>
   bis_error_info (snd (bis_prepare_terminal (bis_init (world0 [False])))) =
     \<lparr>error_str = Some ''Error getting terminal attributes'', is_errno = 1\<rparr> \<and>
   bis_term_info_set (snd (bis_prepare_terminal (bis_init (world0 [False])))) = 0"
proof -
  have q: "fst (tcgetattr STDOUT_FILENO (os (bis_init (world0 [False])))) = None"
    by (simp add: run_defs)
  have f: "bis_term_info_set (bis_init (world0 [False])) = 0"
    by (simp add: bis_init_def)
  from prepare_query_failure [OF q] q f show ?thesis
    by simp
qed




text \<open>
  Claim C7, as the specification words it: after \<^verbatim>\<open>bis_restore_terminal\<close> without a
  snapshot the message is \<^verbatim>\<open>restore called before prepare\<close>. At program start the
  message recorded is another one.
\<close>

theorem restore_before_prepare_message_counterexample:
  "bis_term_info_set (bis_init (world0 [])) \<noteq> 1 \<and>
   error_str (bis_error_info (snd (bis_restore_terminal (bis_init (world0 []))))) \<noteq>
     Some ''restore called before prepare''"
  by (simp add: bis_restore_terminal_def bis_init_def)

text \<open>
  Claim C7, amended: after \<^verbatim>\<open>bis_restore_terminal\<close> without a snapshot,
  \<^verbatim>\<open>bis_error_info\<close> holds the message
  \<^verbatim>\<open>bis_restore_terminal called before bis_prepare_terminal\<close> with \<open>is_errno = 0\<close>.
\<close>

theorem restore_before_prepare_message:
  assumes "bis_term_info_set s \<noteq> 1"
  shows "bis_error_info (snd (bis_restore_terminal s)) =
           \<lparr>error_str = Some ''bis_restore_terminal called before bis_prepare_terminal'',
            is_errno = 0\<rparr>"
  by (simp add: restore_unprepared [OF assms])

theorem restore_before_prepare_message_witness:
  "bis_term_info_set (bis_init (world0 [])) \<noteq> 1 \<and>
   bis_error_info (snd (bis_restore_terminal (bis_init (world0 [])))) =
     \<lparr>error_str = Some ''bis_restore_terminal called before bis_prepare_terminal'',
      is_errno = 0\<rparr>"
proof -
  have f: "bis_term_info_set (bis_init (world0 [])) \<noteq> 1"
    by (simp add: bis_init_def)
  from restore_before_prepare_message [OF f] f show ?thesis
    by simp
qed

text \<open>
  Claim C8. \<^verbatim>\<open>bis_term_info_set\<close> is 0 at program start, it is 1 after every call of
  \<^verbatim>\<open>bis_prepare_terminal\<close> that returns 0, and once it is 1 it is 1 after every sequence
  of calls of the two operations, whatever they return.
\<close>

theorem prepared_flag_never_reset:
  "bis_term_info_set (bis_init w) = 0 \<and>
   (fst (bis_prepare_terminal s) = 0 \<longrightarrow>
      bis_term_info_set (snd (bis_prepare_terminal s)) = 1) \<and>
   (bis_term_info_set t = 1 \<longrightarrow> bis_term_info_set (bis_run cs t) = 1)"
proof (intro conjI impI)
  show "bis_term_info_set (bis_init w) = 0"
    by (simp add: bis_init_def)
next
  assume "fst (bis_prepare_terminal s) = 0"
  then have "os_next_ok (os_script (os s))"
    by (simp add: prepare_rc0)
  then show "bis_term_info_set (snd (bis_prepare_terminal s)) = 1"
    by (rule prepare_snapshot(2))
next
  assume "bis_term_info_set t = 1"
  then show "bis_term_info_set (bis_run cs t) = 1"
    by (rule run_keeps_flag)
qed

theorem prepared_flag_never_reset_witness:
  "bis_term_info_set (bis_init (world0 [])) = 0 \<and>
   fst (bis_prepare_terminal (bis_init (world0 [True, True, False, True, False, False]))) = 0 \<and>
   bis_term_info_set
     (snd (bis_prepare_terminal (bis_init (world0 [True, True, False, True, False, False])))) = 1 \<and>
   bis_term_info_set
     (bis_run [Restore, Prepare, Prepare, Restore]
        (snd (bis_prepare_terminal (bis_init (world0 [True, True, False, True, False, False])))))
     = 1"
proof -
  have p: "fst (bis_prepare_terminal
      (bis_init (world0 [True, True, False, True, False, False]))) = 0"
    by (simp add: run_defs)
  have f: "bis_term_info_set (snd (bis_prepare_terminal
      (bis_init (world0 [True, True, False, True, False, False])))) = 1"
    by (simp add: run_defs)
  from prepared_flag_never_reset
    [of "world0 []" "bis_init (world0 [True, True, False, True, False, False])"
        "snd (bis_prepare_terminal (bis_init (world0 [True, True, False, True, False, False])))"
        "[Restore, Prepare, Prepare, Restore]"]
    p f
  show ?thesis
    by simp
qed

text \<open>
  Claim C9. A call of \<^verbatim>\<open>bis_prepare_terminal\<close> or \<^verbatim>\<open>bis_restore_terminal\<close> that returns
  0 leaves both fields of \<^verbatim>\<open>bis_error_info\<close> as they were, so an earlier failure stays
  recorded; a call that does not return 0 has written one of the two records of its
  failure paths.
\<close>

theorem last_error_written_on_failure_only:
  "(fst (bis_prepare_terminal s) = 0 \<longrightarrow>
      bis_error_info (snd (bis_prepare_terminal s)) = bis_error_info s) \<and>
   (fst (bis_restore_terminal t) = 0 \<longrightarrow>
      bis_error_info (snd (bis_restore_terminal t)) = bis_error_info t) \<and>
   (fst (bis_prepare_terminal u) \<noteq> 0 \<longrightarrow>
      bis_error_info (snd (bis_prepare_terminal u)) =
        \<lparr>error_str = Some ''Error getting terminal attributes'', is_errno = 1\<rparr> \<or>
      bis_error_info (snd (bis_prepare_terminal u)) =
        \<lparr>error_str = Some ''Error setting terminal attributes'', is_errno = 1\<rparr>) \<and>
   (fst (bis_restore_terminal v) \<noteq> 0 \<longrightarrow>
      bis_error_info (snd (bis_restore_terminal v)) =
        \<lparr>error_str = Some ''bis_restore_terminal called before bis_prepare_terminal'',
         is_errno = 0\<rparr> \<or>
      bis_error_info (snd (bis_restore_terminal v)) =
        \<lparr>error_str = Some ''Error restoring terminal attributes'', is_errno = 1\<rparr>)"
proof (intro conjI impI)
  assume "fst (bis_prepare_terminal s) = 0"
  then show "bis_error_info (snd (bis_prepare_terminal s)) = bis_error_info s"
    by (simp add: prepare_rc0 prepare_ok)
next
  assume "fst (bis_restore_terminal t) = 0"
  then show "bis_error_info (snd (bis_restore_terminal t)) = bis_error_info t"
    by (simp add: restore_rc0 restore_ok)
next
  assume "fst (bis_prepare_terminal u) \<noteq> 0"
  then show "bis_error_info (snd (bis_prepare_terminal u)) =
        \<lparr>error_str = Some ''Error getting terminal attributes'', is_errno = 1\<rparr> \<or>
      bis_error_info (snd (bis_prepare_terminal u)) =
        \<lparr>error_str = Some ''Error setting terminal attributes'', is_errno = 1\<rparr>"
    by (cases "os_next_ok (os_script (os u))"; cases "os_next_ok (tl (os_script (os u)))")
       (simp_all add: prepare_ok prepare_apply_fail prepare_query_fail)
next
  assume "fst (bis_restore_terminal v) \<noteq> 0"
  then show "bis_error_info (snd (bis_restore_terminal v)) =
        \<lparr>error_str = Some ''bis_restore_terminal called before bis_prepare_terminal'',
         is_errno = 0\<rparr> \<or>
      bis_error_info (snd (bis_restore_terminal v)) =
        \<lparr>error_str = Some ''Error restoring terminal attributes'', is_errno = 1\<rparr>"
    by (cases "bis_term_info_set v = 1"; cases "os_next_ok (os_script (os v))")
       (simp_all add: restore_ok restore_apply_fail restore_unprepared)
qed

theorem last_error_written_on_failure_only_witness:
  "fst (bis_prepare_terminal (snd (bis_restore_terminal (bis_init (world0 []))))) = 0 \<and>
   bis_error_info (snd (bis_prepare_terminal (snd (bis_restore_terminal (bis_init (world0 [])))))) =
     \<lparr>error_str = Some ''bis_restore_terminal called before bis_prepare_terminal'',
      is_errno = 0\<rparr> \<and>
   fst (bis_restore_terminal (snd (bis_prepare_terminal (bis_init (world0 [True, False]))))) = 0 \<and>
   bis_error_info
     (snd (bis_restore_terminal (snd (bis_prepare_terminal (bis_init (world0 [True, False])))))) =
     \<lparr>error_str = Some ''Error setting terminal attributes'', is_errno = 1\<rparr> \<and>
   fst (bis_prepare_terminal (bis_init (world0 [True, False]))) \<noteq> 0 \<and>
   bis_error_info (snd (bis_prepare_terminal (bis_init (world0 [True, False])))) =
     \<lparr>error_str = Some ''Error setting terminal attributes'', is_errno = 1\<rparr> \<and>
   fst (bis_restore_terminal (bis_init (world0 []))) \<noteq> 0 \<and>
   bis_error_info (snd (bis_restore_terminal (bis_init (world0 [])))) =
     \<lparr>error_str = Some ''bis_restore_terminal called before bis_prepare_terminal'',
      is_errno = 0\<rparr>"
proof -
  have p: "fst (bis_prepare_terminal (snd (bis_restore_terminal (bis_init (world0 []))))) = 0"
    by (simp add: run_defs)
  have r: "fst (bis_restore_terminal (snd (bis_prepare_terminal (bis_init (world0 [True, False]))))) = 0"
    by (simp add: run_defs)
  have pf: "fst (bis_prepare_terminal (bis_init (world0 [True, False]))) \<noteq> 0"
    by (simp add: run_defs)
  have rf: "fst (bis_restore_terminal (bis_init (world0 []))) \<noteq> 0"
    by (simp add: run_defs)
  have e1: "bis_error_info (snd (bis_restore_terminal (bis_init (world0 [])))) =
     \<lparr>error_str = Some ''bis_restore_terminal called before bis_prepare_terminal'',
      is_errno = 0\<rparr>"
    by (simp add: run_defs)
  have e2: "bis_error_info (snd (bis_prepare_terminal (bis_init (world0 [True, False])))) =
     \<lparr>error_str = Some ''Error setting terminal attributes'', is_errno = 1\<rparr>"
    by (simp add: run_defs)
  from last_error_written_on_failure_only
    [of "snd (bis_restore_terminal (bis_init (world0 [])))"
        "snd (bis_prepare_terminal (bis_init (world0 [True, False])))"
        "bis_init (world0 [True, False])"
        "bis_init (world0 [])"]
    p r pf rf e1 e2
  show ?thesis
    by simp
qed

text \<open>
  Claim C10. When the query of the attributes fails, \<^verbatim>\<open>bis_prepare_terminal\<close> leaves
  the snapshot \<^verbatim>\<open>bis_term_info\<close> as it was: the function returns before the copy.
\<close>

theorem prepare_query_failure_keeps_snapshot:
  assumes "fst (tcgetattr STDOUT_FILENO (os s)) = None"
  shows "bis_term_info (snd (bis_prepare_terminal s)) = bis_term_info s"
proof -
  from assms have "\<not> os_next_ok (os_script (os s))"
    by (simp add: getattr_result split: if_splits)
  then show ?thesis
    by (simp add: prepare_query_fail)
qed

theorem prepare_query_failure_keeps_snapshot_witness:
  "fst (tcgetattr STDOUT_FILENO
     (os (snd (bis_prepare_terminal (bis_init (world0 [True, True, False])))))) = None \<and>
   bis_term_info (snd (bis_prepare_terminal
     (snd (bis_prepare_terminal (bis_init (world0 [True, True, False])))))) = cooked"
proof -
  have q: "fst (tcgetattr STDOUT_FILENO
     (os (snd (bis_prepare_terminal (bis_init (world0 [True, True, False])))))) = None"
    by (simp add: run_defs)
  have snap: "bis_term_info (snd (bis_prepare_terminal (bis_init (world0 [True, True, False]))))
     = cooked"
    by (simp add: run_defs)
  from prepare_query_failure_keeps_snapshot [OF q] q snap show ?thesis
    by simp
qed

end
